theory Spec2Isabelle
  imports Main
begin

section \<open>Text\<close>

text \<open>
  A Python \<open>str\<close> is a sequence of Unicode code points, and \<open>len\<close>, slicing and
  \<open>count\<close> work on code points. A text is therefore a list of code points (natural
  numbers); \<open>text_of\<close> reads an ASCII literal, and characters outside ASCII in the
  fixed texts of the source are written by their code point. \<open>bytes\<close> values
  (image data, audio data) are lists of numbers too and are never inspected.
\<close>

type_synonym pystr = "nat list"
type_synonym bytes = "nat list"

definition text_of :: "string \<Rightarrow> pystr" where
  "text_of s = map of_char s"

text \<open>\<open>str.isspace\<close> for one code point: the characters \<open>str.strip()\<close> and
  \<open>str.split()\<close> treat as whitespace.\<close>

definition is_space :: "nat \<Rightarrow> bool" where
  "is_space c \<longleftrightarrow>
     (9 \<le> c \<and> c \<le> 13) \<or> (28 \<le> c \<and> c \<le> 32) \<or> c = 133 \<or> c = 160 \<or> c = 5760 \<or>
     (8192 \<le> c \<and> c \<le> 8202) \<or> c = 8232 \<or> c = 8233 \<or> c = 8239 \<or> c = 8287 \<or> c = 12288"

text \<open>\<open>text.strip()\<close>\<close>

definition strip :: "pystr \<Rightarrow> pystr" where
  "strip t = rev (dropWhile is_space (rev (dropWhile is_space t)))"

text \<open>\<open>text.split()\<close>: the maximal runs of characters that are not whitespace.\<close>

fun split_acc :: "pystr \<Rightarrow> pystr \<Rightarrow> pystr list" where
  "split_acc cur [] = (if cur = [] then [] else [cur])"
| "split_acc cur (c # cs) =
     (if is_space c then (if cur = [] then split_acc [] cs else cur # split_acc [] cs)
      else split_acc (cur @ [c]) cs)"

definition split :: "pystr \<Rightarrow> pystr list" where
  "split t = split_acc [] t"

text \<open>\<open>' '.join(ws)\<close>\<close>

fun join :: "pystr list \<Rightarrow> pystr" where
  "join [] = []"
| "join [w] = w"
| "join (w # ws) = w @ [32] @ join ws"

text \<open>\<open>text.upper()\<close> and \<open>text.lower()\<close>. The model maps the letters of ASCII (and,
  for \<open>lower\<close>, of Latin-1, the range of an HTTP header value) and leaves every other
  code point as it is.\<close>

definition upper :: "pystr \<Rightarrow> pystr" where
  "upper t = map (\<lambda>c. if 97 \<le> c \<and> c \<le> 122 then c - 32 else c) t"

definition lower :: "pystr \<Rightarrow> pystr" where
  "lower t = map (\<lambda>c. if (65 \<le> c \<and> c \<le> 90) \<or> (192 \<le> c \<and> c \<le> 222 \<and> c \<noteq> 215)
                        then c + 32 else c) t"

text \<open>\<open>sub in text\<close>\<close>

primrec contains :: "pystr \<Rightarrow> pystr \<Rightarrow> bool" where
  "contains sub [] = (sub = [])"
| "contains sub (c # cs) = (take (length sub) (c # cs) = sub \<or> contains sub cs)"

text \<open>\<open>text.startswith('/')\<close>\<close>

definition starts_with_slash :: "pystr \<Rightarrow> bool" where
  "starts_with_slash t = (case t of [] \<Rightarrow> False | c # _ \<Rightarrow> c = 47)"

text \<open>\<open>text.count(sub)\<close>: the number of occurrences of \<open>sub\<close> that do not overlap,
  found from left to right.\<close>

fun count_sub :: "pystr \<Rightarrow> pystr \<Rightarrow> nat" where
  "count_sub [] t = Suc (length t)"
| "count_sub (s # ss) [] = 0"
| "count_sub (s # ss) (c # cs) =
     (if take (Suc (length ss)) (c # cs) = s # ss
      then Suc (count_sub (s # ss) (drop (length ss) cs))
      else count_sub (s # ss) cs)"

text \<open>\<open>str(n)\<close> for an integer, as an f-string renders it.\<close>

fun digits :: "nat \<Rightarrow> pystr" where
  "digits n = (if n < 10 then [48 + n] else digits (n div 10) @ [48 + n mod 10])"

declare digits.simps [simp del]

definition str_of_int :: "int \<Rightarrow> pystr" where
  "str_of_int i = (if i < 0 then 45 # digits (nat (- i)) else digits (nat i))"

section \<open>Outbound text repair\<close>

text \<open>\<open>clean_markdown\<close> (bot.py, 279-299). \<open>not text\<close> holds for the empty text.\<close>

definition clean_markdown :: "pystr \<Rightarrow> pystr" where
  "clean_markdown text =
     (if text = [] then text
      else
        let t1 = (if count_sub (text_of ''```'') text mod 2 \<noteq> 0
                  then text @ text_of ''\<newline>```'' else text);
            t2 = (if count_sub (text_of ''**'') t1 mod 2 \<noteq> 0 then t1 @ text_of ''**'' else t1);
            t3 = (if count_sub (text_of ''_'') t2 mod 2 \<noteq> 0 then t2 @ text_of ''_'' else t2);
            t4 = (if count_sub (text_of ''*'') t3 mod 2 \<noteq> 0 then t3 @ text_of ''*'' else t3)
        in take 4000 t4)"

section \<open>Conversation store\<close>

text \<open>
  \<open>AdvancedMemory\<close> (bot.py, 196-246). The memory file holds one JSON document,
  a dictionary from user id to the user's entry. An entry is either a bare list of
  turns (the legacy form) or a dictionary; of a dictionary the model keeps the two
  keys the program reads, \<open>history\<close> and \<open>settings\<close>, each of which may be absent.
  A file that cannot be read or parsed makes \<open>load\<close> log the error and return \<open>{}\<close>.
\<close>

record turn =
  role :: pystr
  content :: pystr

datatype stored =
    StoredList "turn list"
  | StoredDict "turn list option" "(pystr \<rightharpoonup> pystr) option"

record user_data =
  history :: "turn list"
  settings :: "pystr \<rightharpoonup> pystr"

datatype memory_file = Missing | Unreadable | Document "pystr \<rightharpoonup> stored"

definition load :: "memory_file \<Rightarrow> (pystr \<rightharpoonup> stored)" where
  "load f = (case f of Missing \<Rightarrow> Map.empty | Unreadable \<Rightarrow> Map.empty | Document d \<Rightarrow> d)"

text \<open>\<open>save\<close>: writing may fail (\<open>writable\<close> is False); the error is logged and the
  file is left as it was.\<close>

definition save :: "bool \<Rightarrow> memory_file \<Rightarrow> (pystr \<rightharpoonup> stored) \<Rightarrow> memory_file" where
  "save writable f data = (if writable then Document data else f)"

definition get_user_data :: "memory_file \<Rightarrow> pystr \<Rightarrow> user_data" where
  "get_user_data f user_id =
     (let data = load f;
          entry = (case data user_id of None \<Rightarrow> StoredDict None None | Some e \<Rightarrow> e)
      in case entry of
           StoredList l \<Rightarrow> \<lparr>history = l, settings = Map.empty\<rparr>
         | StoredDict h s \<Rightarrow>
             \<lparr>history = (case h of None \<Rightarrow> [] | Some l \<Rightarrow> l),
              settings = (case s of None \<Rightarrow> Map.empty | Some m \<Rightarrow> m)\<rparr>)"

definition save_user_data :: "bool \<Rightarrow> memory_file \<Rightarrow> pystr \<Rightarrow> user_data \<Rightarrow> memory_file" where
  "save_user_data writable f user_id ud =
     (let data = load f
      in save writable f (data(user_id \<mapsto> StoredDict (Some (history ud)) (Some (settings ud)))))"

definition get_setting :: "memory_file \<Rightarrow> pystr \<Rightarrow> pystr \<Rightarrow> pystr \<Rightarrow> pystr" where
  "get_setting f user_id key dflt =
     (case settings (get_user_data f user_id) key of None \<Rightarrow> dflt | Some v \<Rightarrow> v)"

section \<open>Counter store\<close>

text \<open>
  \<open>Analytics\<close> (bot.py, 116-182). The table \<open>metrics\<close> is a list of rows. SQLite's
  \<open>CURRENT_TIMESTAMP\<close> and \<open>datetime('now')\<close> are UTC with a resolution of one second,
  so a timestamp is the number of seconds since the epoch, \<open>DATE(t)\<close> is the day
  number \<open>t div 86400\<close>, and \<open>datetime('now', '-1 minute')\<close> is \<open>now - 60\<close>.
  A database that raises on every statement is \<open>Broken\<close>.
\<close>

record row =
  user_id :: pystr
  timestamp :: int
  tokens :: int
  request_type :: pystr

datatype database = Broken | Table "row list"

record metrics =
  RPM :: nat
  TPM :: int
  RPD :: nat
  breakdown :: "pystr \<rightharpoonup> nat"

definition date :: "int \<Rightarrow> int" where
  "date t = t div 86400"

text \<open>\<open>log_request\<close>: one row more, stamped with the clock of the store; an error is
  logged and swallowed.\<close>

definition log_request :: "database \<Rightarrow> int \<Rightarrow> pystr \<Rightarrow> int \<Rightarrow> pystr \<Rightarrow> database" where
  "log_request d now uid toks rtype =
     (case d of
        Broken \<Rightarrow> Broken
      | Table rows \<Rightarrow>
          Table (rows @ [\<lparr>user_id = uid, timestamp = now, tokens = toks, request_type = rtype\<rparr>]))"

text \<open>\<open>SELECT request_type, COUNT(*) ... GROUP BY request_type\<close>, read into a dict:
  a type is a key exactly when some row has it.\<close>

definition group_count :: "row list \<Rightarrow> (pystr \<rightharpoonup> nat)" where
  "group_count rows =
     (\<lambda>ty. let n = length (filter (\<lambda>r. request_type r = ty) rows)
           in if n = 0 then None else Some n)"

definition get_current_metrics :: "database \<Rightarrow> int \<Rightarrow> metrics" where
  "get_current_metrics d now =
     (case d of
        Broken \<Rightarrow> \<lparr>RPM = 0, TPM = 0, RPD = 0, breakdown = Map.empty\<rparr>
      | Table rows \<Rightarrow>
          let minute = filter (\<lambda>r. timestamp r > now - 60) rows;
              today = filter (\<lambda>r. date (timestamp r) = date now) rows
          in \<lparr>RPM = length minute,
              TPM = sum_list (map tokens minute),
              RPD = length today,
              breakdown = group_count today\<rparr>)"

section \<open>The world outside the program\<close>

text \<open>
  Every interaction with the messaging transport, an HTTP service, the inference
  service or the file system is a \<open>call\<close>. The program's run is a function of an
  environment \<open>env\<close> that answers each call; the answer may depend on the call and on
  how many calls came before it. The world records the calls made, in order, next to
  the two stores and the files of the \<open>temp\<close> directory. Logging is not modelled.
\<close>

datatype call =
    SendMessage int pystr
  | SendChatAction int pystr
  | DeleteMessage int int
  | SendPhoto int bytes pystr
  | GetFile pystr
  | DownloadFile pystr
  | HttpPost pystr "(pystr \<times> pystr) list" pystr nat
  | HttpGet pystr "(pystr \<times> pystr) list" nat
  | ChatCreate pystr "turn list" nat nat
  | Transcribe pystr bytes pystr pystr
  | Makedirs pystr
  | WriteFile pystr bytes
  | ReadFile pystr
  | RemoveFile pystr

text \<open>
  \<open>HttpPost url headers inputs timeout\<close>, \<open>HttpGet url headers timeout\<close>,
  \<open>ChatCreate model messages temperature max_tokens\<close> (the temperature in tenths),
  \<open>Transcribe filename audio model response_format\<close>.
  An answer is an exception, \<open>None\<close>, a sent message (its id), an HTTP response
  (status, the Content-Type header if present, body), a chat completion (the contents
  of its choices), a transcript, a file path or file data. An answer of a shape the
  call site does not expect is handled as an exception there.
\<close>

datatype reply =
    Raises
  | Returns_None
  | Sent int
  | Response int "pystr option" bytes
  | Completion "pystr list"
  | Transcript pystr
  | File_Path pystr
  | Data bytes

record env =
  groq_client :: bool
  HF_KEY :: "pystr option"
  answer :: "nat \<Rightarrow> call \<Rightarrow> reply"
  clock :: "nat \<Rightarrow> int"
  local_hhmm :: "nat \<Rightarrow> pystr"
  url_quote :: "pystr \<Rightarrow> pystr"
  random_choice :: "nat \<Rightarrow> nat"

text \<open>
  \<open>groq_client\<close>: whether the inference client exists (\<open>GROQ_API_KEY\<close> set and the
  client built). \<open>clock n\<close>: the time in seconds after \<open>n\<close> calls (\<open>time.time()\<close> and the
  clock of the counter store). \<open>local_hhmm\<close>: \<open>datetime.now().strftime('%H:%M')\<close>.
  \<open>url_quote\<close>: \<open>requests.utils.quote\<close>. \<open>random_choice n\<close>: the index \<open>random.choice\<close>
  picks after \<open>n\<close> calls.
\<close>

record world =
  memory_file :: memory_file
  memory_writable :: bool
  db :: database
  files :: "pystr \<rightharpoonup> bytes"
  calls :: "call list"

definition do_call :: "env \<Rightarrow> world \<Rightarrow> call \<Rightarrow> reply \<times> world" where
  "do_call e w c = (answer e (length (calls w)) c, w\<lparr>calls := calls w @ [c]\<rparr>)"

text \<open>The calls that leave for an inference service or an image provider.\<close>

fun is_external_call :: "call \<Rightarrow> bool" where
  "is_external_call (HttpPost _ _ _ _) = True"
| "is_external_call (HttpGet _ _ _) = True"
| "is_external_call (ChatCreate _ _ _ _) = True"
| "is_external_call (Transcribe _ _ _ _) = True"
| "is_external_call _ = False"

section \<open>Image provider chain\<close>

text \<open>
  \<open>ImageGenerator.generate\<close> (bot.py, 321-451) returns \<open>None\<close>, the bytes of an
  image, or a dictionary with the keys \<open>type\<close>, \<open>prompt\<close>, \<open>description\<close>, \<open>emojis\<close>
  and \<open>suggestion\<close>. Each of its four blocks is one definition below; a provider
  block yields the image bytes it returns, or nothing when the chain goes on.
\<close>

record payload =
  p_type :: pystr
  p_prompt :: pystr
  p_description :: pystr
  p_emojis :: pystr
  p_suggestion :: pystr

datatype gen_result = NoResult | Image bytes | Payload payload

definition hf_model :: pystr where
  "hf_model = text_of ''black-forest-labs/FLUX.1-schnell''"

definition hf_url :: pystr where
  "hf_url = text_of ''https://api-inference.huggingface.co/models/'' @ hf_model"

definition router_url :: pystr where
  "router_url = text_of ''https://router.huggingface.co/hf-inference/models/'' @ hf_model"

definition hf_headers :: "env \<Rightarrow> (pystr \<times> pystr) list" where
  "hf_headers e =
     [(text_of ''Authorization'',
       text_of ''Bearer '' @ (case HF_KEY e of None \<Rightarrow> text_of ''None'' | Some k \<Rightarrow> k)),
      (text_of ''x-use-cache'', text_of ''false'')]"

text \<open>Block 1 (332-375): the hosted model, with one retry at the router URL on
  status 410. The retry returns the body on status 200 whatever its content type.\<close>

definition try_flux :: "env \<Rightarrow> world \<Rightarrow> pystr \<Rightarrow> bytes option \<times> world" where
  "try_flux e w clean_prompt =
     (let (r, w1) = do_call e w (HttpPost hf_url (hf_headers e) clean_prompt 60)
      in case r of
           Response status ctype body \<Rightarrow>
             if status = 200 then
               (if contains (text_of ''image'') (case ctype of None \<Rightarrow> [] | Some c \<Rightarrow> c)
                then (Some body, w1) else (None, w1))
             else if status = 410 then
               (let (r2, w2) = do_call e w1 (HttpPost router_url (hf_headers e) clean_prompt 60)
                in case r2 of
                     Response status2 ctype2 body2 \<Rightarrow>
                       if status2 = 200 then (Some body2, w2) else (None, w2)
                   | _ \<Rightarrow> (None, w2))
             else (None, w1)
         | _ \<Rightarrow> (None, w1))"

text \<open>Block 2 (378-393)\<close>

definition try_pollinations :: "env \<Rightarrow> world \<Rightarrow> pystr \<Rightarrow> bytes option \<times> world" where
  "try_pollinations e w clean_prompt =
     (let encoded_prompt = url_quote e clean_prompt;
          url1 = text_of ''https://image.pollinations.ai/prompt/'' @ encoded_prompt;
          (r, w1) = do_call e w (HttpGet url1 [(text_of ''User-Agent'', text_of ''Mozilla/5.0'')] 15)
      in case r of
           Response status ctype body \<Rightarrow>
             if status = 200 then
               (if contains (text_of ''image'') (lower (case ctype of None \<Rightarrow> [] | Some c \<Rightarrow> c))
                then (Some body, w1) else (None, w1))
             else (None, w1)
         | _ \<Rightarrow> (None, w1))"

text \<open>Block 3 (396-410)\<close>

definition styles :: "pystr list" where
  "styles = [text_of ''digital-art'', text_of ''fantasy-art'', text_of ''neon-punk'',
             text_of ''isometric'', text_of ''low-poly'']"

definition try_creative :: "env \<Rightarrow> world \<Rightarrow> pystr \<Rightarrow> bytes option \<times> world" where
  "try_creative e w clean_prompt =
     (let style = styles ! (random_choice e (length (calls w)) mod length styles);
          encoded_prompt = url_quote e clean_prompt;
          url2 = text_of ''https://image.pollinations.ai/prompt/'' @ encoded_prompt
                 @ text_of ''?model='' @ style;
          (r, w1) = do_call e w (HttpGet url2 [] 15)
      in case r of
           Response status ctype body \<Rightarrow>
             if status = 200 then (Some body, w1) else (None, w1)
         | _ \<Rightarrow> (None, w1))"

text \<open>Block 4 (413-444): the textual fallback of mode \<open>auto\<close>. \<open>choices[0]\<close> of a
  completion without choices raises, as the call itself may; the handler of the
  block returns \<open>None\<close> then.\<close>

definition not_configured_payload :: "pystr \<Rightarrow> payload" where
  "not_configured_payload clean_prompt =
     \<lparr>p_type = text_of ''text'',
      p_prompt = clean_prompt,
      p_description = text_of ''AI backend not configured. Set GROQ_API_KEY in .env to enable detailed descriptions.'',
      p_emojis = [9888, 65039],
      p_suggestion = text_of ''Add GROQ_API_KEY to .env and restart the bot.''\<rparr>"

definition description_payload :: "pystr \<Rightarrow> pystr \<Rightarrow> payload" where
  "description_payload clean_prompt desc =
     \<lparr>p_type = text_of ''text'',
      p_prompt = clean_prompt,
      p_description = desc,
      p_emojis = [127912, 10024],
      p_suggestion = text_of ''Try a different prompt or simpler description.''\<rparr>"

definition text_fallback :: "env \<Rightarrow> world \<Rightarrow> pystr \<Rightarrow> gen_result \<times> world" where
  "text_fallback e w clean_prompt =
     (let description_prompt = text_of ''Create a detailed visual description for: '' @ clean_prompt
      in if \<not> groq_client e then (Payload (not_configured_payload clean_prompt), w)
         else
           (let (r, w1) = do_call e w
                  (ChatCreate (text_of ''llama-3.3-70b-versatile'')
                     [\<lparr>role = text_of ''user'', content = description_prompt\<rparr>] 8 200)
            in case r of
                 Completion (c # cs) \<Rightarrow> (Payload (description_payload clean_prompt c), w1)
               | _ \<Rightarrow> (NoResult, w1)))"

definition generate :: "env \<Rightarrow> world \<Rightarrow> pystr \<Rightarrow> pystr \<Rightarrow> gen_result \<times> world" where
  "generate e w prompt model_type =
     (let clean_prompt = strip prompt
      in if clean_prompt = [] then (NoResult, w)
         else
           let (r1, w1) = (if model_type = text_of ''auto'' \<or> model_type = text_of ''flux''
                           then try_flux e w clean_prompt else (None, w))
           in case r1 of
                Some img \<Rightarrow> (Image img, w1)
              | None \<Rightarrow>
                  let (r2, w2) = (if model_type = text_of ''auto'' \<or> model_type = text_of ''pollinations''
                                  then try_pollinations e w1 clean_prompt else (None, w1))
                  in case r2 of
                       Some img \<Rightarrow> (Image img, w2)
                     | None \<Rightarrow>
                         let (r3, w3) = (if model_type = text_of ''auto'' \<or> model_type = text_of ''creative''
                                         then try_creative e w2 clean_prompt else (None, w2))
                         in case r3 of
                              Some img \<Rightarrow> (Image img, w3)
                            | None \<Rightarrow>
                                if model_type = text_of ''auto''
                                then text_fallback e w3 clean_prompt
                                else (NoResult, w3))"

section \<open>Message dispatcher\<close>

text \<open>
  Of an inbound message the handlers read the chat id, the text (absent for a
  message without text) and, for a voice clip, the file id of the clip.
\<close>

record message =
  chat_id :: int
  msg_text :: "pystr option"
  voice_file_id :: pystr

definition the_default :: "'a \<Rightarrow> 'a option \<Rightarrow> 'a" where
  "the_default d x = (case x of None \<Rightarrow> d | Some v \<Rightarrow> v)"

text \<open>\<open>xs[-n:]\<close> for a positive \<open>n\<close>: the last \<open>n\<close> elements, all of them when the list
  is shorter.\<close>

definition last_n :: "nat \<Rightarrow> 'a list \<Rightarrow> 'a list" where
  "last_n n xs = drop (length xs - n) xs"

text \<open>\<open>safe_send_message\<close> (301-313): a second attempt without the markup characters
  when the first raises. The result is the id of the sent message, if there is one.\<close>

definition plain_text :: "pystr \<Rightarrow> pystr" where
  "plain_text t = filter (\<lambda>c. c \<noteq> 42 \<and> c \<noteq> 95 \<and> c \<noteq> 96 \<and> c \<noteq> 126) t"

definition sent_id :: "reply \<Rightarrow> int option" where
  "sent_id r = (case r of Sent i \<Rightarrow> Some i | _ \<Rightarrow> None)"

definition safe_send_message :: "env \<Rightarrow> world \<Rightarrow> int \<Rightarrow> pystr \<Rightarrow> int option \<times> world" where
  "safe_send_message e w cid t =
     (let (r, w1) = do_call e w (SendMessage cid t)
      in if r = Raises then
           (let (r2, w2) = do_call e w1 (SendMessage cid (plain_text t))
            in if r2 = Raises then (None, w2) else (sent_id r2, w2))
         else (sent_id r, w1))"

subsection \<open>Search command\<close>

definition search_usage :: pystr where
  "search_usage =
     [128269] @ text_of '' *Web Search*\<newline>''
     @ text_of ''\<newline>''
     @ text_of ''*Usage:* `/search [your question]`\<newline>''
     @ text_of ''\<newline>''
     @ text_of ''*Examples:*\<newline>''
     @ [8226] @ text_of '' `/search latest AI developments in 2026`\<newline>''
     @ [8226] @ text_of '' `/search how to learn Python programming`\<newline>''
     @ [8226] @ text_of '' `/search best practices for web development`''"

definition search_prompt :: "pystr \<Rightarrow> pystr" where
  "search_prompt query =
     text_of ''Search Query: '' @ query
     @ text_of ''\<newline>''
     @ text_of ''        \<newline>''
     @ text_of ''        As a Knowledge Specialist in 2026, provide a comprehensive search result for the query above.\<newline>''
     @ text_of ''        \<newline>''
     @ text_of ''        Structure your response as follows:\<newline>''
     @ text_of ''        '' @ [127760] @ text_of '' [Topic Overview]\<newline>''
     @ text_of ''        Brief summary of the most current information.\<newline>''
     @ text_of ''        \<newline>''
     @ text_of ''        '' @ [128204] @ text_of '' [Key Facts & Developments]\<newline>''
     @ text_of ''        - Detail 1\<newline>''
     @ text_of ''        - Detail 2\<newline>''
     @ text_of ''        \<newline>''
     @ text_of ''        '' @ [128736, 65039] @ text_of '' [Practical Insights/Applications]\<newline>''
     @ text_of ''        How this information is used or its significance.\<newline>''
     @ text_of ''        \<newline>''
     @ text_of ''        '' @ [128161] @ text_of '' [Expert Tip]\<newline>''
     @ text_of ''        A unique insight or recommendation.\<newline>''
     @ text_of ''        \<newline>''
     @ text_of ''        Keep it professional, accurate, and formatted for a mobile chat interface.''"

definition search_not_configured :: pystr where
  "search_not_configured =
     [128268] @ text_of '' *AI backend not configured.*\<newline>''
     @ text_of ''Set `GROQ_API_KEY` in your .env to enable search features.''"

definition search_result_text :: "pystr \<Rightarrow> pystr \<Rightarrow> pystr" where
  "search_result_text query ans =
     [128269] @ text_of '' *Search Results:* '' @ query
     @ text_of ''\<newline>'' @ text_of ''\<newline>'' @ ans
     @ text_of ''\<newline>'' @ text_of ''\<newline>''
     @ [10024] @ text_of '' *Source:* Artovix AI Knowledge Base''"

definition search_api_error_text :: "pystr \<Rightarrow> pystr" where
  "search_api_error_text query =
     [128269] @ text_of '' *Search:* '' @ query
     @ text_of ''\<newline>'' @ text_of ''\<newline>''
     @ text_of ''I'' @ [39] @ text_of ''ll help you with that! Here'' @ [39]
     @ text_of ''s what I know:\<newline>''
     @ text_of ''\<newline>''
     @ text_of ''Please try rephrasing your question or ask me directly about the topic.''"

definition search_unavailable :: pystr where
  "search_unavailable =
     [128269] @ text_of '' *Search temporarily unavailable*\<newline>''
     @ text_of ''\<newline>''
     @ text_of ''Try asking your question directly to me!''"

text \<open>The argument of a command, as every command handler extracts it
  (\<open>if message.text and len(message.text.split()) > 1\<close>): everything after the first
  word, joined by single spaces; none when the message has no second word.\<close>

definition command_argument :: "message \<Rightarrow> pystr option" where
  "command_argument m =
     (case msg_text m of
        None \<Rightarrow> None
      | Some t \<Rightarrow> if t \<noteq> [] \<and> length (split t) > 1 then Some (join (tl (split t))) else None)"

text \<open>\<open>handle_search\<close> (618-698). Without an argument the handler sends the usage
  text and returns.\<close>

definition handle_search :: "env \<Rightarrow> world \<Rightarrow> message \<Rightarrow> world" where
  "handle_search e w m =
     (case command_argument m of
        None \<Rightarrow> snd (safe_send_message e w (chat_id m) search_usage)
      | Some query \<Rightarrow>
         (let (r0, w0) = do_call e w (SendChatAction (chat_id m) (text_of ''typing''))
          in if r0 = Raises then snd (safe_send_message e w0 (chat_id m) search_unavailable)
             else if \<not> groq_client e
             then snd (safe_send_message e w0 (chat_id m) search_not_configured)
             else
               (let (r1, w1) = do_call e w0
                      (ChatCreate (text_of ''llama-3.3-70b-versatile'')
                         [\<lparr>role = text_of ''user'', content = search_prompt query\<rparr>] 7 500);
                    w2 = (case r1 of
                            Completion (c # cs) \<Rightarrow>
                              snd (safe_send_message e w1 (chat_id m)
                                     (search_result_text query (clean_markdown c)))
                          | _ \<Rightarrow> snd (safe_send_message e w1 (chat_id m) (search_api_error_text query)))
                in w2\<lparr>db := log_request (db w2) (clock e (length (calls w2)))
                               (str_of_int (chat_id m)) (int (length (split query)) * 30)
                               (text_of ''search'')\<rparr>)))"

subsection \<open>Image commands\<close>

text \<open>\<open>process_image_generation\<close> (915-998); \<open>model_type\<close> is \<open>None\<close> for \<open>/draw\<close> and
  the mode for \<open>/flux\<close>, \<open>/pollinations\<close>, \<open>/creative\<close> and \<open>/auto\<close>. The test
  \<open>if model_type\<close> fails for \<open>None\<close> and for the empty text.\<close>

definition image_help_text :: "pystr option \<Rightarrow> pystr \<Rightarrow> pystr" where
  "image_help_text model_type display_model =
     (let given = (case model_type of None \<Rightarrow> False | Some mt \<Rightarrow> mt \<noteq> [])
      in [127912] @ text_of '' *AI Image Generator ('' @ upper display_model
         @ text_of '')*\<newline>''
         @ text_of ''\<newline>''
         @ text_of ''*Usage:* `/'' @ (if given then display_model else text_of ''draw'')
         @ text_of '' [description]`\<newline>''
         @ text_of ''\<newline>''
         @ text_of ''*Available Commands:*\<newline>''
         @ [8226] @ text_of '' `/flux` - High Quality (HF)\<newline>''
         @ [8226] @ text_of '' `/pollinations` - Fast & Reliable\<newline>''
         @ [8226] @ text_of '' `/creative` - Artistic Styles\<newline>''
         @ [8226] @ text_of '' `/auto` - Smart Selection\<newline>''
         @ text_of ''\<newline>''
         @ text_of ''*Example:* `/'' @ (if given then display_model else text_of ''flux'')
         @ text_of '' a futuristic city in neon rain`'')"

definition creating_text :: "pystr \<Rightarrow> pystr \<Rightarrow> pystr" where
  "creating_text active_model prompt =
     [127912] @ text_of '' *Creating with '' @ upper active_model @ text_of '':* '' @ [34]
     @ take 60 prompt @ text_of ''...'' @ [34] @ text_of ''\<newline>''
     @ [9203] @ text_of '' Generating image... (10-30 seconds)''"

definition concept_text :: "pystr \<Rightarrow> payload \<Rightarrow> pystr" where
  "concept_text active_model res =
     [127912] @ text_of '' *AI Image Concept:* '' @ p_prompt res
     @ text_of ''\<newline>'' @ text_of ''\<newline>''
     @ [10024] @ text_of '' *Model:* '' @ upper active_model @ text_of '' (Fallback)\<newline>''
     @ text_of ''\<newline>''
     @ p_emojis res @ text_of '' *Visual Description:*\<newline>''
     @ p_description res
     @ text_of ''\<newline>'' @ text_of ''\<newline>''
     @ [128161] @ text_of '' *Pro Tip:* '' @ p_suggestion res"

definition photo_caption :: "pystr \<Rightarrow> pystr \<Rightarrow> pystr \<Rightarrow> pystr" where
  "photo_caption active_model prompt hhmm =
     [127912] @ text_of '' *AI Generated ('' @ upper active_model @ text_of ''):* '' @ prompt
     @ text_of ''\<newline>'' @ text_of ''\<newline>''
     @ [10024] @ text_of '' Powered by Artovix AI | '' @ hhmm"

definition photo_failed_text :: pystr where
  "photo_failed_text = [10060] @ text_of '' Failed to send image. Try again!''"

definition generation_failed_text :: pystr where
  "generation_failed_text = [10060] @ text_of '' Generation failed. Try a different prompt or model.''"

definition process_image_generation :: "env \<Rightarrow> world \<Rightarrow> message \<Rightarrow> pystr option \<Rightarrow> world" where
  "process_image_generation e w m model_type =
     (let uid = chat_id m;
          given = (case model_type of None \<Rightarrow> False | Some mt \<Rightarrow> mt \<noteq> []);
          preferred = get_setting (memory_file w) (str_of_int uid) (text_of ''image_model'') (text_of ''auto'')
      in case command_argument m of
           None \<Rightarrow>
             (let current_model = preferred;
                  display_model = (if given then the_default [] model_type else current_model)
              in snd (safe_send_message e w uid (image_help_text model_type display_model)))
         | Some prompt \<Rightarrow>
             (let active_model = (if given then the_default [] model_type else preferred);
                  (thinking_msg, w1) = safe_send_message e w uid (creating_text active_model prompt);
                  (result, w2) = generate e w1 prompt active_model;
                  w3 = (case thinking_msg of
                          None \<Rightarrow> w2
                        | Some mid \<Rightarrow> snd (do_call e w2 (DeleteMessage uid mid)));
                  w4 = (case result of
                          Payload res \<Rightarrow> snd (safe_send_message e w3 uid (concept_text active_model res))
                        | Image img \<Rightarrow>
                            if img = [] then snd (safe_send_message e w3 uid generation_failed_text)
                            else
                              (let caption = photo_caption active_model prompt
                                               (local_hhmm e (length (calls w3)));
                                   (r, w') = do_call e w3 (SendPhoto uid img caption)
                               in if r = Raises then snd (safe_send_message e w' uid photo_failed_text)
                                  else w')
                        | NoResult \<Rightarrow> snd (safe_send_message e w3 uid generation_failed_text))
              in w4\<lparr>db := log_request (db w4) (clock e (length (calls w4))) (str_of_int uid)
                             (int (length (split prompt))) (text_of ''image_gen_'' @ active_model)\<rparr>))"

subsection \<open>Free text\<close>

definition SYSTEM_PROMPT :: pystr where
  "SYSTEM_PROMPT =
     text_of ''You are Artovix, an elite AI assistant in 2026.\<newline>''
     @ text_of ''\<newline>''
     @ text_of ''PERSONALITY:\<newline>''
     @ text_of ''- Brilliant futurist AI\<newline>''
     @ text_of ''- Empathetic and supportive  \<newline>''
     @ text_of ''- Creative problem solver\<newline>''
     @ text_of ''- Multimodal expert\<newline>''
     @ text_of ''- Ethical and responsible\<newline>''
     @ text_of ''\<newline>''
     @ text_of ''GUIDELINES:\<newline>''
     @ text_of ''1. Be helpful, accurate, and concise\<newline>''
     @ text_of ''2. Use appropriate emojis\<newline>''
     @ text_of ''3. Admit when you don'' @ [39] @ text_of ''t know something\<newline>''
     @ text_of ''4. Consider context from previous messages\<newline>''
     @ text_of ''5. Think step-by-step for complex problems\<newline>''
     @ text_of ''\<newline>''
     @ text_of ''RESPONSE FORMAT:\<newline>''
     @ text_of ''- Use Markdown for readability\<newline>''
     @ text_of ''- Structure complex answers with bullet points\<newline>''
     @ text_of ''- Keep responses clear and engaging\<newline>''
     @ text_of ''\<newline>''
     @ text_of ''Remember: You'' @ [39] @ text_of ''re talking to a human in 2026!''"

definition chat_not_configured :: pystr where
  "chat_not_configured =
     [128268] @ text_of '' *AI backend not configured.*\<newline>''
     @ text_of ''Set `GROQ_API_KEY` in your .env to enable chat responses.''"

definition thinking_text :: pystr where
  "thinking_text =
     [129302] @ text_of '' *I'' @ [39] @ text_of ''m thinking...*\<newline>''
     @ text_of ''\<newline>''
     @ text_of ''Please try again in a moment or rephrase your question.''"

definition try_again_text :: pystr where
  "try_again_text = [9888, 65039] @ text_of '' Please try again or use /reset to start fresh.''"

text \<open>The message list of a chat turn (1166-1171): the system instruction,
  \<open>history[-4:]\<close> and the new user message.\<close>

definition chat_messages :: "turn list \<Rightarrow> pystr \<Rightarrow> turn list" where
  "chat_messages hist txt =
     [\<lparr>role = text_of ''system'', content = SYSTEM_PROMPT\<rparr>]
     @ last_n 4 hist
     @ [\<lparr>role = text_of ''user'', content = txt\<rparr>]"

text \<open>The history that a chat turn persists (1190-1197): the two new turns are
  appended, and a history of more than 20 entries is cut to its last 20.\<close>

definition extend_history :: "turn list \<Rightarrow> pystr \<Rightarrow> pystr \<Rightarrow> turn list" where
  "extend_history hist txt reply =
     (let h1 = hist @ [\<lparr>role = text_of ''user'', content = txt\<rparr>,
                       \<lparr>role = text_of ''assistant'', content = reply\<rparr>]
      in if length h1 > 20 then last_n 20 h1 else h1)"

text \<open>\<open>handle_all_messages\<close> (1153-1225). An exception of the chat call, or a
  completion without choices, is caught by the inner handler; one of
  \<open>send_chat_action\<close> by the outer one.\<close>

definition handle_all_messages :: "env \<Rightarrow> world \<Rightarrow> message \<Rightarrow> world" where
  "handle_all_messages e w m =
     (case msg_text m of
        None \<Rightarrow> w
      | Some txt \<Rightarrow>
          if txt = [] \<or> starts_with_slash txt then w
          else
            (let uid = str_of_int (chat_id m);
                 ud = get_user_data (memory_file w) uid;
                 hist = history ud;
                 messages = chat_messages hist txt;
                 (r0, w0) = do_call e w (SendChatAction (chat_id m) (text_of ''typing''))
             in if r0 = Raises then snd (safe_send_message e w0 (chat_id m) try_again_text)
                else if \<not> groq_client e
                then snd (safe_send_message e w0 (chat_id m) chat_not_configured)
                else
                  (let (r1, w1) = do_call e w0
                         (ChatCreate (text_of ''llama-3.3-70b-versatile'') messages 7 400)
                   in case r1 of
                        Completion (c # cs) \<Rightarrow>
                          (let reply = clean_markdown c;
                               ud' = ud\<lparr>history := extend_history hist txt reply\<rparr>;
                               w2 = w1\<lparr>memory_file :=
                                        save_user_data (memory_writable w1) (memory_file w1) uid ud'\<rparr>;
                               w3 = snd (safe_send_message e w2 (chat_id m) reply);
                               tokens_used = int (length (split txt)) + int (length (split reply))
                           in w3\<lparr>db := log_request (db w3) (clock e (length (calls w3))) uid
                                          tokens_used (text_of ''chat'')\<rparr>)
                      | _ \<Rightarrow> snd (safe_send_message e w1 (chat_id m) thinking_text))))"

subsection \<open>Voice clips\<close>

definition voice_not_configured :: pystr where
  "voice_not_configured =
     [128268] @ text_of '' *AI backend not configured.*\<newline>''
     @ text_of ''Set `GROQ_API_KEY` in your .env to enable voice transcription.''"

definition not_heard_text :: pystr where
  "not_heard_text =
     [127908] @ text_of '' *I couldn'' @ [39] @ text_of ''t hear you clearly.*\<newline>''
     @ text_of ''Could you please try again?''"

definition transcribed_text :: "pystr \<Rightarrow> pystr" where
  "transcribed_text transcription =
     [127908] @ text_of '' *Transcribed:* '' @ [34] @ transcription @ [34]"

definition voice_failed_text :: pystr where
  "voice_failed_text =
     [127908] @ text_of '' *Voice processing failed.*\<newline>''
     @ text_of ''Please try sending a text message instead.''"

definition temp_filename :: "int \<Rightarrow> int \<Rightarrow> pystr" where
  "temp_filename cid now =
     text_of ''temp/voice_'' @ str_of_int cid @ text_of ''_'' @ str_of_int now @ text_of ''.ogg''"

text \<open>The file operations of the handler. Writing creates the file, reading
  needs it to exist, removing deletes it; each may raise instead.\<close>

definition write_file :: "env \<Rightarrow> world \<Rightarrow> pystr \<Rightarrow> bytes \<Rightarrow> bool \<times> world" where
  "write_file e w path d =
     (let (r, w1) = do_call e w (WriteFile path d)
      in if r = Raises then (False, w1) else (True, w1\<lparr>files := (files w1)(path \<mapsto> d)\<rparr>))"

definition read_file :: "env \<Rightarrow> world \<Rightarrow> pystr \<Rightarrow> bytes option \<times> world" where
  "read_file e w path =
     (let (r, w1) = do_call e w (ReadFile path)
      in if r = Raises then (None, w1) else (files w1 path, w1))"

definition remove_file :: "env \<Rightarrow> world \<Rightarrow> pystr \<Rightarrow> bool \<times> world" where
  "remove_file e w path =
     (let (r, w1) = do_call e w (RemoveFile path)
      in if r = Raises \<or> files w1 path = None then (False, w1)
         else (True, w1\<lparr>files := (files w1)(path := None)\<rparr>))"

text \<open>The handler of every exception in \<open>handle_voice\<close> (1093-1095).\<close>

definition voice_failed :: "env \<Rightarrow> world \<Rightarrow> message \<Rightarrow> world" where
  "voice_failed e w m = snd (safe_send_message e w (chat_id m) voice_failed_text)"

text \<open>\<open>handle_voice\<close> (1054-1095). The clip is downloaded and written to a file in
  \<open>temp\<close>; the file is opened again, and inside that block the handler returns when
  there is no inference client, or else calls the transcription; \<open>os.remove\<close> is the
  statement after the block.\<close>

definition handle_voice :: "env \<Rightarrow> world \<Rightarrow> message \<Rightarrow> world" where
  "handle_voice e w m =
     (let (r0, w0) = do_call e w (SendChatAction (chat_id m) (text_of ''upload_document''))
      in if r0 = Raises then voice_failed e w0 m
         else
           (let (r1, w1) = do_call e w0 (GetFile (voice_file_id m))
            in case r1 of
                 File_Path file_path \<Rightarrow>
                   (let (r2, w2) = do_call e w1 (DownloadFile file_path)
                    in case r2 of
                         Data downloaded_file \<Rightarrow>
                           (let name = temp_filename (chat_id m) (clock e (length (calls w2)));
                                (r3, w3) = do_call e w2 (Makedirs (text_of ''temp''))
                            in if r3 = Raises then voice_failed e w3 m
                               else
                                 (let (written, w4) = write_file e w3 name downloaded_file
                                  in if \<not> written then voice_failed e w4 m
                                     else
                                       (let (audio, w5) = read_file e w4 name
                                        in case audio of
                                             None \<Rightarrow> voice_failed e w5 m
                                           | Some audio_bytes \<Rightarrow>
                                               if \<not> groq_client e
                                               then snd (safe_send_message e w5 (chat_id m) voice_not_configured)
                                               else
                                                 (let (r6, w6) = do_call e w5
                                                        (Transcribe name audio_bytes
                                                           (text_of ''whisper-large-v3'') (text_of ''text''))
                                                  in case r6 of
                                                       Transcript transcription \<Rightarrow>
                                                         (let (removed, w7) = remove_file e w6 name
                                                          in if \<not> removed then voice_failed e w7 m
                                                             else if transcription = [] \<or> length (strip transcription) < 1
                                                             then snd (safe_send_message e w7 (chat_id m) not_heard_text)
                                                             else
                                                               (let m' = m\<lparr>msg_text := Some transcription\<rparr>;
                                                                    w8 = snd (safe_send_message e w7 (chat_id m)
                                                                                (transcribed_text transcription))
                                                                in handle_all_messages e w8 m'))
                                                     | _ \<Rightarrow> voice_failed e w6 m))))
                       | _ \<Rightarrow> voice_failed e w2 m)
               | _ \<Rightarrow> voice_failed e w1 m))"

section \<open>Properties\<close>

text \<open>
  C9. A text with an odd number of code-fence markers first gets a closing fence
  (a newline and three backticks) appended, then possibly closing emphasis markers,
  and only then is cut to 4000 characters; the result is never longer than 4000
  characters, for any text.
\<close>

theorem clean_markdown_closes_fence_then_caps:
  "(count_sub (text_of ''```'') text mod 2 \<noteq> 0 \<longrightarrow>
      (\<exists>closers. clean_markdown text = take 4000 (text @ text_of ''\<newline>```'' @ closers)))
   \<and> length (clean_markdown text) \<le> 4000"
proof
  show "count_sub (text_of ''```'') text mod 2 \<noteq> 0 \<longrightarrow>
      (\<exists>closers. clean_markdown text = take 4000 (text @ text_of ''\<newline>```'' @ closers))"
  proof
    assume odd: "count_sub (text_of ''```'') text mod 2 \<noteq> 0"
    have ne: "text \<noteq> []"
    proof
      assume "text = []"
      with odd show False by (simp add: text_of_def)
    qed
    define t1 where "t1 = text @ text_of ''\<newline>```''"
    define t2 where "t2 = (if count_sub (text_of ''**'') t1 mod 2 \<noteq> 0 then t1 @ text_of ''**'' else t1)"
    define t3 where "t3 = (if count_sub (text_of ''_'') t2 mod 2 \<noteq> 0 then t2 @ text_of ''_'' else t2)"
    define t4 where "t4 = (if count_sub (text_of ''*'') t3 mod 2 \<noteq> 0 then t3 @ text_of ''*'' else t3)"
    have cm: "clean_markdown text = take 4000 t4"
      unfolding clean_markdown_def t4_def t3_def t2_def t1_def
      by (simp only: Let_def odd ne if_True if_False not_False_eq_True)
    obtain c2 where c2: "t2 = t1 @ c2" unfolding t2_def by (cases "count_sub (text_of ''**'') t1 mod 2 \<noteq> 0") auto
    obtain c3 where c3: "t3 = t2 @ c3" unfolding t3_def by (cases "count_sub (text_of ''_'') t2 mod 2 \<noteq> 0") auto
    obtain c4 where c4: "t4 = t3 @ c4" unfolding t4_def by (cases "count_sub (text_of ''*'') t3 mod 2 \<noteq> 0") auto
    have "t4 = text @ text_of ''\<newline>```'' @ (c2 @ c3 @ c4)"
      using c2 c3 c4 t1_def by simp
    with cm show "\<exists>closers. clean_markdown text = take 4000 (text @ text_of ''\<newline>```'' @ closers)"
      by blast
  qed
next
  show "length (clean_markdown text) \<le> 4000"
  proof (cases "text = []")
    case True
    then show ?thesis by (simp add: clean_markdown_def)
  next
    case False
    then show ?thesis by (simp add: clean_markdown_def Let_def split del: if_split)
  qed
qed

theorem clean_markdown_closes_fence_then_caps_witness:
  "count_sub (text_of ''```'') (text_of ''```x'') mod 2 \<noteq> 0
   \<and> clean_markdown (text_of ''```x'') = text_of ''```x\<newline>```''"
  using clean_markdown_closes_fence_then_caps [of "text_of ''```x''"]
  by (simp add: clean_markdown_def text_of_def)

end
